theory Spec2Isabelle
  imports Complex_Main
begin

section \<open>Numbers and grid snapping (src/App.tsx, lines 22-23)\<close>

text \<open>
  A JavaScript \<open>number\<close> is modelled as an exact \<open>real\<close>: the finite values, without the
  rounding error of IEEE doubles and without \<open>NaN\<close> or the infinities.
  \<open>Math.round\<close> rounds to the nearest integer, a tie going up.
\<close>

definition Math_round :: "real \<Rightarrow> real" where
  "Math_round v = of_int \<lfloor>v + 1 / 2\<rfloor>"

definition GRID_SIZE :: real where
  "GRID_SIZE = 10"

definition snapToGrid :: "real \<Rightarrow> real" where
  "snapToGrid v = Math_round (v / GRID_SIZE) * GRID_SIZE"

section \<open>The history store \<open>useHistory\<close> (src/App.tsx, lines 40-69)\<close>

text \<open>
  The two React state cells of the hook, \<open>history\<close> and \<open>index\<close>. A call of
  \<open>setState\<close>, \<open>undo\<close> or \<open>redo\<close> reads the cells of the render it was created in and
  returns the cells of the next render.
\<close>

record 'a hstate =
  history :: "'a list"
  index :: nat

text \<open>\<open>React.SetStateAction<T>\<close>: an updater function or a plain value.\<close>

datatype 'a set_action = Fn "'a \<Rightarrow> 'a" | Val 'a

definition useHistory :: "'a \<Rightarrow> 'a hstate" where
  "useHistory initialState = \<lparr>history = [initialState], index = 0\<rparr>"

text \<open>The exposed \<open>state: history[index]\<close>.\<close>

definition state :: "'a hstate \<Rightarrow> 'a" where
  "state h = history h ! index h"

definition setState :: "'a hstate \<Rightarrow> 'a set_action \<Rightarrow> bool \<Rightarrow> 'a hstate" where
  "setState h action overwrite =
     (let newState = (case action of Fn f \<Rightarrow> f (history h ! index h) | Val v \<Rightarrow> v)
      in if overwrite
         then h\<lparr>history := (history h)[index h := newState]\<rparr>
         else (let newHistory = take (index h + 1) (history h) @ [newState]
               in \<lparr>history = newHistory, index = length newHistory - 1\<rparr>))"

definition undo :: "'a hstate \<Rightarrow> 'a hstate" where
  "undo h = (if index h > 0 then h\<lparr>index := index h - 1\<rparr> else h)"

definition redo :: "'a hstate \<Rightarrow> 'a hstate" where
  "redo h = (if index h < length (history h) - 1 then h\<lparr>index := index h + 1\<rparr> else h)"

definition canUndo :: "'a hstate \<Rightarrow> bool" where
  "canUndo h \<longleftrightarrow> index h > 0"


text \<open>
  The history states that the hook can reach from its initial state by any sequence of
  writes (in either mode), undos and redos.
\<close>

inductive reachable :: "'a hstate \<Rightarrow> bool" where
  r_init: "reachable (useHistory s0)"
| r_set: "reachable h \<Longrightarrow> reachable (setState h a ow)"
| r_undo: "reachable h \<Longrightarrow> reachable (undo h)"
| r_redo: "reachable h \<Longrightarrow> reachable (redo h)"

section \<open>The data model (types.ts)\<close>

datatype feature_type = Door | Window

datatype wall_side = WTop | WBottom | WLeft | WRight

record wall_feature =
  fid :: string
  ftype :: feature_type
  wall :: wall_side
  position :: real
  fwidth :: real

text \<open>
  \<open>Room\<close>. The optional \<open>locked\<close> is only ever tested for truthiness, so an absent
  \<open>locked\<close> is \<open>False\<close>.
\<close>

record room =
  rid :: string
  rx :: real
  ry :: real
  rwidth :: real
  rheight :: real
  rname :: string
  rcolor :: string
  zIndex :: real
  features :: "wall_feature list"
  locked :: bool

record point =
  px :: real
  py :: real

section \<open>The state of the \<open>App\<close> component (src/App.tsx, lines 206-234)\<close>

datatype tool_mode = Select | Draw

datatype action_type = ANone | Drawing | Moving | Resizing

datatype resize_handle = TopLeft | TopRight | BottomLeft | BottomRight

text \<open>
  \<open>actionState\<close>: the optional fields are \<open>option\<close>s; the optional \<open>isDragging\<close> is only
  tested for truthiness, so an absent one is \<open>False\<close>.
\<close>

record action_state =
  atype :: action_type
  startPoint :: "point option"
  moveOffset :: "point option"
  targetId :: "string option"
  isDragging :: bool
  handle :: "resize_handle option"

record view =
  scale :: real
  vx :: real
  vy :: real

text \<open>
  What a handler reads from its event and from the page while it runs: the mouse button,
  the client coordinates, the wheel delta, the left and top of the canvas's bounding
  rectangle (\<open>None\<close> when \<open>canvasRef.current\<close> is null), and the identifier that
  \<open>crypto.randomUUID()\<close> returns during the handler.
\<close>

record pointer_event =
  button :: int
  clientX :: real
  clientY :: real
  deltaY :: real
  canvas :: "point option"
  randomUUID :: string

text \<open>
  The state cells of \<open>App\<close>. \<open>alerts\<close> records the messages shown by \<open>alert\<close>, the one
  effect outside the component that a claim speaks about.
\<close>

record app =
  hist :: "room list hstate"
  selectedRoomId :: "string option"
  mode :: tool_mode
  actionState :: action_state
  viewTransform :: view
  isPanning :: bool
  panStartRef :: point
  drawingPreview :: "(point \<times> point) option"
  alerts :: "string list"

definition ROOM_COLORS :: "string list" where
  "ROOM_COLORS =
    [''#DBEAFE'', ''#BFDBFE'', ''#93C5FD'',
     ''#A7F3D0'', ''#6EE7B7'', ''#34D399'',
     ''#C7D2FE'', ''#A5B4FC'', ''#818CF8'',
     ''#DDD6FE'', ''#C4B5FD'', ''#A78BFA'',
     ''#E9D5FF'', ''#D8B4FE'', ''#C084FC'',
     ''#FDE68A'', ''#FCD34D'', ''#FBBF24'',
     ''#FED7AA'', ''#FDBA74'', ''#FB923C'',
     ''#FECACA'', ''#FCA5A5'', ''#F87171'',
     ''#FBCFE8'', ''#F9A8D4'', ''#F472B6'',
     ''#E5E7EB'', ''#D1D5DB'', ''#9CA3AF'']"

definition initialRooms :: "room list" where
  "initialRooms =
    [\<lparr>rid = ''living-room-1'', rx = 50, ry = 50, rwidth = 300, rheight = 200,
      rname = ''Living Room'', rcolor = ROOM_COLORS ! 0, zIndex = 0, features = [],
      locked = False\<rparr>,
     \<lparr>rid = ''kitchen-1'', rx = 350, ry = 50, rwidth = 150, rheight = 150,
      rname = ''Kitchen'', rcolor = ROOM_COLORS ! 1, zIndex = 1, features = [],
      locked = False\<rparr>]"

definition idle :: action_state where
  "idle = \<lparr>atype = ANone, startPoint = None, moveOffset = None, targetId = None,
           isDragging = False, handle = None\<rparr>"

definition initialApp :: app where
  "initialApp =
    \<lparr>hist = useHistory initialRooms, selectedRoomId = None, mode = Select,
     actionState = idle, viewTransform = \<lparr>scale = 1, vx = 0, vy = 0\<rparr>,
     isPanning = False, panStartRef = \<lparr>px = 0, py = 0\<rparr>, drawingPreview = None,
     alerts = []\<rparr>"

text \<open>\<open>rooms\<close> is the exposed \<open>state\<close> of the history hook; \<open>setRooms\<close> is its \<open>setState\<close>.\<close>

definition rooms :: "app \<Rightarrow> room list" where
  "rooms st = state (hist st)"

definition setRooms :: "app \<Rightarrow> room list set_action \<Rightarrow> bool \<Rightarrow> app" where
  "setRooms st action overwrite = st\<lparr>hist := setState (hist st) action overwrite\<rparr>"

section \<open>Pointer handlers (src/App.tsx, lines 236-429)\<close>

definition getMouseWorldPos :: "app \<Rightarrow> pointer_event \<Rightarrow> point" where
  "getMouseWorldPos st e =
     (case canvas e of
        None \<Rightarrow> \<lparr>px = 0, py = 0\<rparr>
      | Some rect \<Rightarrow>
          \<lparr>px = (clientX e - px rect - vx (viewTransform st)) / scale (viewTransform st),
           py = (clientY e - py rect - vy (viewTransform st)) / scale (viewTransform st)\<rparr>)"

definition handleMouseDown :: "app \<Rightarrow> pointer_event \<Rightarrow> app" where
  "handleMouseDown st e =
     (if button e = 1
      then st\<lparr>isPanning := True, panStartRef := \<lparr>px = clientX e, py = clientY e\<rparr>\<rparr>
      else
        (let pos = getMouseWorldPos st e in
         if mode st = Draw
         then (let sp = \<lparr>px = snapToGrid (px pos), py = snapToGrid (py pos)\<rparr>
               in st\<lparr>actionState := idle\<lparr>atype := Drawing, startPoint := Some sp\<rparr>,
                     drawingPreview := Some (sp, sp),
                     selectedRoomId := None\<rparr>)
         else (let s1 = st\<lparr>selectedRoomId := None\<rparr>
               in if button e = 0
                  then s1\<lparr>isPanning := True,
                          panStartRef := \<lparr>px = clientX e, py = clientY e\<rparr>\<rparr>
                  else s1)))"

text \<open>
  The handlers of a room and of its resize handles return, with the next state, whether
  they called \<open>e.stopPropagation()\<close>: a mouse-down that is not stopped bubbles to the
  canvas, whose \<open>onMouseDown\<close> is \<open>handleMouseDown\<close>.
\<close>

definition handleRoomMouseDown :: "app \<Rightarrow> pointer_event \<Rightarrow> room \<Rightarrow> app \<times> bool" where
  "handleRoomMouseDown st e r =
     (if mode st = Draw \<or> locked r then (st, False)
      else if button e = 0
      then (let pos = getMouseWorldPos st e
            in (st\<lparr>selectedRoomId := Some (rid r),
                    actionState := idle\<lparr>atype := Moving, targetId := Some (rid r),
                      isDragging := False,
                      moveOffset := Some \<lparr>px = px pos - rx r, py = py pos - ry r\<rparr>\<rparr>\<rparr>,
                True))
      else (st, True))"

definition handleResizeStart ::
  "app \<Rightarrow> pointer_event \<Rightarrow> room \<Rightarrow> resize_handle \<Rightarrow> app \<times> bool" where
  "handleResizeStart st e r h =
     (if mode st \<noteq> Select \<or> button e \<noteq> 0 \<or> locked r then (st, True)
      else (st\<lparr>actionState := idle\<lparr>atype := Resizing, targetId := Some (rid r),
                  isDragging := False, handle := Some h\<rparr>\<rparr>,
            True))"

text \<open>A string is truthy when it is present and not empty; an object when present.\<close>

definition truthyId :: "string option \<Rightarrow> bool" where
  "truthyId t = (case t of None \<Rightarrow> False | Some s \<Rightarrow> s \<noteq> [])"

text \<open>The updater of the moving branch, for one room.\<close>

definition moveRoom :: "string \<Rightarrow> point \<Rightarrow> point \<Rightarrow> room \<Rightarrow> room" where
  "moveRoom tid off pos r =
     (if rid r = tid
      then r\<lparr>rx := snapToGrid (px pos - px off), ry := snapToGrid (py pos - py off)\<rparr>
      else r)"

text \<open>The updater of the resizing branch, for one room.\<close>

definition resizeRoom :: "string \<Rightarrow> resize_handle \<Rightarrow> point \<Rightarrow> room \<Rightarrow> room" where
  "resizeRoom tid h snappedPos r =
     (if rid r \<noteq> tid then r
      else
        (let x = rx r; y = ry r; width = rwidth r; height = rheight r;
             right = x + width; bottom = y + height;
             (x', y', width', height') =
               (case h of
                  TopLeft \<Rightarrow>
                    (let x1 = min (px snappedPos) (right - GRID_SIZE);
                         y1 = min (py snappedPos) (bottom - GRID_SIZE)
                     in (x1, y1, right - x1, bottom - y1))
                | TopRight \<Rightarrow>
                    (let y1 = min (py snappedPos) (bottom - GRID_SIZE);
                         w1 = max GRID_SIZE (px snappedPos - x)
                     in (x, y1, w1, bottom - y1))
                | BottomLeft \<Rightarrow>
                    (let x1 = min (px snappedPos) (right - GRID_SIZE);
                         h1 = max GRID_SIZE (py snappedPos - y)
                     in (x1, y, right - x1, h1))
                | BottomRight \<Rightarrow>
                    (x, y, max GRID_SIZE (px snappedPos - x),
                     max GRID_SIZE (py snappedPos - y)))
         in r\<lparr>rx := Math_round x', ry := Math_round y',
               rwidth := Math_round width', rheight := Math_round height'\<rparr>))"

definition handleMouseMove :: "app \<Rightarrow> pointer_event \<Rightarrow> app" where
  "handleMouseMove st e =
     (if isPanning st
      then (let dx = clientX e - px (panStartRef st); dy = clientY e - py (panStartRef st)
            in st\<lparr>viewTransform := (viewTransform st)
                      \<lparr>vx := vx (viewTransform st) + dx, vy := vy (viewTransform st) + dy\<rparr>,
                    panStartRef := \<lparr>px = clientX e, py = clientY e\<rparr>\<rparr>)
      else if atype (actionState st) = ANone then st
      else
        (let pos = getMouseWorldPos st e; a = actionState st in
         if atype a = Moving \<and> truthyId (targetId a) \<and> moveOffset a \<noteq> None
         then (let s1 = (if \<not> isDragging a then st\<lparr>actionState := a\<lparr>isDragging := True\<rparr>\<rparr>
                         else st)
               in setRooms s1
                    (Fn (map (moveRoom (the (targetId a)) (the (moveOffset a)) pos))) True)
         else if atype a = Drawing
         then (let snappedEnd = \<lparr>px = snapToGrid (px pos), py = snapToGrid (py pos)\<rparr>
               in st\<lparr>drawingPreview :=
                       (case drawingPreview st of
                          Some (s, en) \<Rightarrow> Some (s, snappedEnd)
                        | None \<Rightarrow> None)\<rparr>)
         else if atype a = Resizing \<and> truthyId (targetId a) \<and> handle a \<noteq> None
         then (let s1 = (if \<not> isDragging a then st\<lparr>actionState := a\<lparr>isDragging := True\<rparr>\<rparr>
                         else st);
                   snappedPos = \<lparr>px = snapToGrid (px pos), py = snapToGrid (py pos)\<rparr>
               in setRooms s1
                    (Fn (map (resizeRoom (the (targetId a)) (the (handle a)) snappedPos)))
                    True)
         else st))"

text \<open>Decimal digits of a natural number, for the template string \<open>Room ${n}\<close>.\<close>

fun toString :: "nat \<Rightarrow> string" where
  "toString n =
     (if n < 10 then [''0123456789'' ! n]
      else toString (n div 10) @ [''0123456789'' ! (n mod 10)])"

declare toString.simps [simp del]

text \<open>
  \<open>rooms.length > 0 ? Math.max(...rooms.map(r => r.zIndex)) : -1\<close>.
\<close>

definition maxZ :: "room list \<Rightarrow> real" where
  "maxZ rs = (case map zIndex rs of [] \<Rightarrow> - 1 | z # zs \<Rightarrow> foldl max z zs)"

definition newRoom :: "room list \<Rightarrow> point \<Rightarrow> point \<Rightarrow> string \<Rightarrow> room" where
  "newRoom rs sp snappedEnd uuid =
     \<lparr>rid = uuid,
      rx = min (px sp) (px snappedEnd),
      ry = min (py sp) (py snappedEnd),
      rwidth = \<bar>px sp - px snappedEnd\<bar>,
      rheight = \<bar>py sp - py snappedEnd\<bar>,
      rname = ''Room '' @ toString (length rs + 1),
      rcolor = ROOM_COLORS ! (length rs mod length ROOM_COLORS),
      zIndex = maxZ rs + 1,
      features = [],
      locked = False\<rparr>"

text \<open>
  Every \<open>setRooms\<close> of the handler reads the history cells of the render the handler
  belongs to, \<open>hist st\<close>; the three branches that write are mutually exclusive.
\<close>

definition handleMouseUp :: "app \<Rightarrow> pointer_event \<Rightarrow> app" where
  "handleMouseUp st e =
     (let a = actionState st;
          s1 = (if isPanning st then st\<lparr>isPanning := False\<rparr> else st);
          s2 = (if atype a = Moving \<and> isDragging a
                then s1\<lparr>hist := setState (hist st) (Val (rooms st)) False\<rparr> else s1);
          s3 = (if atype a = Resizing \<and> isDragging a
                then s2\<lparr>hist := setState (hist st) (Val (rooms st)) False\<rparr> else s2);
          s4 = (if atype a = Drawing \<and> startPoint a \<noteq> None
                then (let endPoint = getMouseWorldPos st e;
                          snappedEnd = \<lparr>px = snapToGrid (px endPoint),
                                        py = snapToGrid (py endPoint)\<rparr>;
                          nr = newRoom (rooms st) (the (startPoint a)) snappedEnd
                                 (randomUUID e);
                          s = (if rwidth nr \<ge> GRID_SIZE \<and> rheight nr \<ge> GRID_SIZE
                               then s3\<lparr>hist := setState (hist st) (Fn (\<lambda>prev. prev @ [nr]))
                                                 False,
                                       selectedRoomId := Some (rid nr)\<rparr>
                               else s3)
                      in s\<lparr>drawingPreview := None, mode := Select\<rparr>)
                else s3)
      in s4\<lparr>actionState := idle\<rparr>)"

definition handleWheel :: "app \<Rightarrow> pointer_event \<Rightarrow> app" where
  "handleWheel st e =
     (case canvas e of
        None \<Rightarrow> st
      | Some rect \<Rightarrow>
          (let v = viewTransform st;
               mouseX = clientX e - px rect;
               mouseY = clientY e - py rect;
               zoomFactor = 11 / 10;
               newScale = (if deltaY e < 0 then scale v * zoomFactor
                           else scale v / zoomFactor);
               clampedScale = max (2 / 10) (min newScale 5);
               worldX = (mouseX - vx v) / scale v;
               worldY = (mouseY - vy v) / scale v;
               newX = mouseX - worldX * clampedScale;
               newY = mouseY - worldY * clampedScale
           in st\<lparr>viewTransform := \<lparr>scale = clampedScale, vx = newX, vy = newY\<rparr>\<rparr>))"

text \<open>
  The wiring of the handlers in the markup (lines 529-556 and 142, 181): a pointer event
  arrives on the canvas, on a room's body or on a resize handle of a room; moves, ups
  (and leaves) and wheel events always reach the canvas's handlers.
\<close>

datatype ui_event =
    CanvasDown pointer_event
  | RoomDown pointer_event room
  | HandleDown pointer_event room resize_handle
  | MoveEv pointer_event
  | UpEv pointer_event
  | WheelEv pointer_event

definition roomMouseDown :: "app \<Rightarrow> pointer_event \<Rightarrow> room \<Rightarrow> app" where
  "roomMouseDown st e r =
     (case handleRoomMouseDown st e r of
        (s, stopped) \<Rightarrow> if stopped then s else handleMouseDown s e)"

definition handleMouseDownOnHandle ::
  "app \<Rightarrow> pointer_event \<Rightarrow> room \<Rightarrow> resize_handle \<Rightarrow> app" where
  "handleMouseDownOnHandle st e r h =
     (case handleResizeStart st e r h of
        (s, stopped) \<Rightarrow> if stopped then s else roomMouseDown s e r)"

fun step :: "app \<Rightarrow> ui_event \<Rightarrow> app" where
  "step st (CanvasDown e) = handleMouseDown st e"
| "step st (RoomDown e r) = roomMouseDown st e r"
| "step st (HandleDown e r h) = handleMouseDownOnHandle st e r h"
| "step st (MoveEv e) = handleMouseMove st e"
| "step st (UpEv e) = handleMouseUp st e"
| "step st (WheelEv e) = handleWheel st e"

definition run :: "app \<Rightarrow> ui_event list \<Rightarrow> app" where
  "run st evs = foldl step st evs"

section \<open>Loading a plan (src/App.tsx, lines 453-493)\<close>

text \<open>
  The value that \<open>JSON.parse\<close> returns. An object is the list of its keys and values, read
  with \<open>map_of\<close>.
\<close>

datatype json =
    JNull
  | JBool bool
  | JNum real
  | JStr string
  | JArr "json list"
  | JObj "(string \<times> json) list"

text \<open>
  What the reader hands to \<open>onload\<close>: a result that is not a string, a text that
  \<open>JSON.parse\<close> rejects with an exception, or a text with its parsed value.
\<close>

datatype read_result = NotString | Unparsable | Parsed json

text \<open>
  The result of evaluating an expression that may throw: \<open>Throws\<close> is an exception,
  \<open>Typed v\<close> a value of the TypeScript type the code declares for it, and \<open>Untyped\<close> a
  value outside that type (a \<open>NaN\<close>, a string where a number is declared, and so on),
  which the code accepts and this model does not represent.
\<close>

datatype 'a js = Throws | Untyped | Typed 'a

text \<open>
  \<open>k in r\<close>, for the eight keys the loader tests: a \<open>TypeError\<close> (\<open>None\<close>) when \<open>r\<close> is not
  an object; none of the eight is a property of an array.
\<close>

definition js_in :: "string \<Rightarrow> json \<Rightarrow> bool option" where
  "js_in k r =
     (case r of
        JObj kvs \<Rightarrow> Some (map_of kvs k \<noteq> None)
      | JArr xs \<Rightarrow> Some False
      | JNull \<Rightarrow> None
      | JBool b \<Rightarrow> None
      | JNum n \<Rightarrow> None
      | JStr t \<Rightarrow> None)"

definition requiredFields :: "string list" where
  "requiredFields =
     [''id'', ''name'', ''x'', ''y'', ''width'', ''height'', ''color'', ''zIndex'']"

text \<open>The chain of \<open>&&\<close> over the keys, left to right, stopping at the first that fails.\<close>

fun all_in :: "string list \<Rightarrow> json \<Rightarrow> bool option" where
  "all_in [] r = Some True"
| "all_in (k # ks) r =
     (case js_in k r of
        None \<Rightarrow> None
      | Some False \<Rightarrow> Some False
      | Some True \<Rightarrow> all_in ks r)"

text \<open>\<open>loadedRooms.every(...)\<close>, stopping at the first element that fails or throws.\<close>

fun every_room :: "json list \<Rightarrow> bool option" where
  "every_room [] = Some True"
| "every_room (r # rs) =
     (case all_in requiredFields r of
        None \<Rightarrow> None
      | Some False \<Rightarrow> Some False
      | Some True \<Rightarrow> every_room rs)"

text \<open>
  \<open>Array.prototype.map\<close> over results: an exception ends the whole map; otherwise one
  untyped element makes the array untyped.
\<close>

fun collect :: "'a js list \<Rightarrow> 'a list js" where
  "collect [] = Typed []"
| "collect (x # xs) =
     (case x of
        Throws \<Rightarrow> Throws
      | Untyped \<Rightarrow> (case collect xs of Throws \<Rightarrow> Throws | Untyped \<Rightarrow> Untyped
                     | Typed vs \<Rightarrow> Untyped)
      | Typed v \<Rightarrow> (case collect xs of Throws \<Rightarrow> Throws | Untyped \<Rightarrow> Untyped
                     | Typed vs \<Rightarrow> Typed (v # vs)))"

definition getStr :: "(string \<times> json) list \<Rightarrow> string \<Rightarrow> string option" where
  "getStr kvs k = (case map_of kvs k of Some (JStr t) \<Rightarrow> Some t | _ \<Rightarrow> None)"

definition getNum :: "(string \<times> json) list \<Rightarrow> string \<Rightarrow> real option" where
  "getNum kvs k = (case map_of kvs k of Some (JNum n) \<Rightarrow> Some n | _ \<Rightarrow> None)"

definition featureType :: "string \<Rightarrow> feature_type option" where
  "featureType t =
     (if t = ''door'' then Some Door else if t = ''window'' then Some Window else None)"

definition wallSide :: "string \<Rightarrow> wall_side option" where
  "wallSide t =
     (if t = ''top'' then Some WTop else if t = ''bottom'' then Some WBottom
      else if t = ''left'' then Some WLeft else if t = ''right'' then Some WRight
      else None)"

text \<open>
  \<open>f => ({...f, width: Math.round(f.width)})\<close>: every field of the stored feature is
  kept but \<open>width\<close>, which is rounded. Reading \<open>f.width\<close> of \<open>null\<close> throws.
\<close>

definition sanitizeFeature :: "json \<Rightarrow> wall_feature js" where
  "sanitizeFeature f =
     (case f of
        JNull \<Rightarrow> Throws
      | JObj kvs \<Rightarrow>
          (case (getStr kvs ''id'', Option.bind (getStr kvs ''type'') featureType,
                 Option.bind (getStr kvs ''wall'') wallSide,
                 getNum kvs ''position'', getNum kvs ''width'') of
             (Some i, Some t, Some w, Some p, Some wd) \<Rightarrow>
               Typed \<lparr>fid = i, ftype = t, wall = w, position = p,
                      fwidth = Math_round wd\<rparr>
           | _ \<Rightarrow> Untyped)
      | JBool b \<Rightarrow> Untyped
      | JNum n \<Rightarrow> Untyped
      | JStr t \<Rightarrow> Untyped
      | JArr xs \<Rightarrow> Untyped)"

text \<open>
  \<open>r.features?.map(...) || []\<close>: an absent or \<open>null\<close> \<open>features\<close> gives the empty list, an
  array is mapped, and anything else has no \<open>map\<close> method, so the call throws.
\<close>

definition sanitizeFeatures :: "(string \<times> json) list \<Rightarrow> wall_feature list js" where
  "sanitizeFeatures kvs =
     (case map_of kvs ''features'' of
        None \<Rightarrow> Typed []
      | Some JNull \<Rightarrow> Typed []
      | Some (JArr fs) \<Rightarrow> collect (map sanitizeFeature fs)
      | Some (JBool b) \<Rightarrow> Throws
      | Some (JNum n) \<Rightarrow> Throws
      | Some (JStr t) \<Rightarrow> Throws
      | Some (JObj ob) \<Rightarrow> Throws)"

text \<open>
  \<open>r.locked || false\<close>: a falsy \<open>locked\<close> becomes \<open>false\<close>, \<open>true\<close> stays, and any other
  truthy value is kept as it is, outside the declared \<open>boolean\<close>.
\<close>

definition sanitizeLocked :: "(string \<times> json) list \<Rightarrow> bool js" where
  "sanitizeLocked kvs =
     (case map_of kvs ''locked'' of
        None \<Rightarrow> Typed False
      | Some JNull \<Rightarrow> Typed False
      | Some (JBool b) \<Rightarrow> Typed b
      | Some (JNum n) \<Rightarrow> (if n = 0 then Typed False else Untyped)
      | Some (JStr t) \<Rightarrow> (if t = [] then Typed False else Untyped)
      | Some (JArr xs) \<Rightarrow> Untyped
      | Some (JObj ob) \<Rightarrow> Untyped)"

text \<open>
  The body of \<open>loadedRooms.map\<close>: \<open>x\<close>, \<open>y\<close>, \<open>width\<close> and \<open>height\<close> are rounded, \<open>locked\<close>
  and \<open>features\<close> are filled in, every other field is kept. Only the features can throw.
\<close>

definition sanitizeRoom :: "json \<Rightarrow> room js" where
  "sanitizeRoom r =
     (case r of
        JObj kvs \<Rightarrow>
          (case sanitizeFeatures kvs of
             Throws \<Rightarrow> Throws
           | Untyped \<Rightarrow> Untyped
           | Typed fs \<Rightarrow>
               (case (getStr kvs ''id'', getStr kvs ''name'', getNum kvs ''x'',
                      getNum kvs ''y'', getNum kvs ''width'', getNum kvs ''height'',
                      getStr kvs ''color'', getNum kvs ''zIndex'', sanitizeLocked kvs) of
                  (Some i, Some n, Some x, Some y, Some w, Some h, Some c, Some z,
                   Typed l) \<Rightarrow>
                    Typed \<lparr>rid = i, rx = Math_round x, ry = Math_round y,
                           rwidth = Math_round w, rheight = Math_round h, rname = n,
                           rcolor = c, zIndex = z, features = fs, locked = l\<rparr>
                | _ \<Rightarrow> Untyped))
      | JNull \<Rightarrow> Untyped
      | JBool b \<Rightarrow> Untyped
      | JNum n \<Rightarrow> Untyped
      | JStr t \<Rightarrow> Untyped
      | JArr xs \<Rightarrow> Untyped)"

definition ALERT_MESSAGE :: string where
  "ALERT_MESSAGE =
     ''Could not load the plan. The file may be corrupted or in an incorrect format.''"

text \<open>The \<open>catch\<close> block: one \<open>alert\<close>, no state cell written.\<close>

definition catchAlert :: "app \<Rightarrow> app" where
  "catchAlert st = st\<lparr>alerts := alerts st @ [ALERT_MESSAGE]\<rparr>"

text \<open>
  \<open>reader.onload\<close>. The result is \<open>None\<close> where the code accepts the file and writes a room
  list with a value outside the \<open>Room\<close> interface.
\<close>

definition onload :: "app \<Rightarrow> read_result \<Rightarrow> app option" where
  "onload st res =
     (case res of
        NotString \<Rightarrow> Some (catchAlert st)
      | Unparsable \<Rightarrow> Some (catchAlert st)
      | Parsed loadedRooms \<Rightarrow>
          (case loadedRooms of
             JArr rs \<Rightarrow>
               (case every_room rs of
                  None \<Rightarrow> Some (catchAlert st)
                | Some False \<Rightarrow> Some (catchAlert st)
                | Some True \<Rightarrow>
                    (case collect (map sanitizeRoom rs) of
                       Throws \<Rightarrow> Some (catchAlert st)
                     | Untyped \<Rightarrow> None
                     | Typed sanitizedRooms \<Rightarrow>
                         Some ((setRooms st (Val sanitizedRooms) False)
                                 \<lparr>selectedRoomId := None\<rparr>)))
           | JNull \<Rightarrow> Some (catchAlert st)
           | JBool b \<Rightarrow> Some (catchAlert st)
           | JNum n \<Rightarrow> Some (catchAlert st)
           | JStr t \<Rightarrow> Some (catchAlert st)
           | JObj ob \<Rightarrow> Some (catchAlert st)))"

section \<open>The undo and redo buttons (src/App.tsx, lines 522-523)\<close>

definition clickUndo :: "app \<Rightarrow> app" where
  "clickUndo st = st\<lparr>hist := undo (hist st)\<rparr>"

definition clickRedo :: "app \<Rightarrow> app" where
  "clickRedo st = st\<lparr>hist := redo (hist st)\<rparr>"

section \<open>Concrete inputs for the scenarios\<close>

text \<open>
  A primary-button event at client position \<open>(cx, cy)\<close> over a canvas whose bounding
  rectangle starts at the origin, so that under the initial view transform the client
  position is the world position.
\<close>

definition mouseAt :: "real \<Rightarrow> real \<Rightarrow> pointer_event" where
  "mouseAt cx cy =
     \<lparr>button = 0, clientX = cx, clientY = cy, deltaY = 0,
      canvas = Some \<lparr>px = 0, py = 0\<rparr>, randomUUID = ''room-3''\<rparr>"

text \<open>The initial application with the draw tool chosen.\<close>

definition drawApp :: app where
  "drawApp = initialApp\<lparr>mode := Draw\<rparr>"

text \<open>The first initial room, moved to \<open>(70, 70)\<close>.\<close>

definition movedRooms :: "room list" where
  "movedRooms = initialRooms[0 := (initialRooms ! 0)\<lparr>rx := 70, ry := 70\<rparr>]"


text \<open>A plan file whose only room record has no \<open>zIndex\<close>.\<close>

definition planWithoutZIndex :: json where
  "planWithoutZIndex =
     JArr [JObj [(''id'', JStr ''hall''), (''name'', JStr ''Hall''), (''x'', JNum 0),
                 (''y'', JNum 0), (''width'', JNum 100), (''height'', JNum 100),
                 (''color'', JStr ''#DBEAFE'')]]"



text \<open>The initial application after a primary-button press on the bottom-right handle of
  the first room.\<close>

definition resizingApp :: app where
  "resizingApp =
     fst (handleResizeStart initialApp (mouseAt 350 250) (initialRooms ! 0) BottomRight)"




section \<open>The invariant of a move gesture\<close>

text \<open>
  What holds of a state \<open>s\<close> between the press on a room with identifier \<open>tid\<close> in state
  \<open>st\<close> and the release: the action state is the moving one for \<open>tid\<close>, and the history
  differs from that of \<open>st\<close> at most in the entry at the current index.
\<close>

definition dragging :: "app \<Rightarrow> string \<Rightarrow> app \<Rightarrow> bool" where
  "dragging st tid s \<longleftrightarrow>
     atype (actionState s) = Moving \<and> targetId (actionState s) = Some tid
     \<and> moveOffset (actionState s) \<noteq> None \<and> \<not> isPanning s
     \<and> index (hist s) = index (hist st)
     \<and> length (history (hist s)) = length (history (hist st))
     \<and> take (index (hist st)) (history (hist s)) = take (index (hist st)) (history (hist st))"

section \<open>Properties of the history store\<close>

lemma reachable_index_in_range: "reachable h \<Longrightarrow> index h < length (history h)"
proof (induction rule: reachable.induct)
  case (r_init s0)
  show ?case by (simp add: useHistory_def)
next
  case (r_set h a ow)
  then show ?case by (simp add: setState_def Let_def)
next
  case (r_undo h)
  then show ?case by (auto simp: undo_def)
next
  case (r_redo h)
  then show ?case by (auto simp: redo_def)
qed

text \<open>
  C9. In every reachable history state in which \<open>canUndo\<close> holds, \<open>undo\<close> followed at
  once by \<open>redo\<close> gives back the same history cells, hence the same exposed snapshot and
  the same index.
\<close>

theorem undo_redo_restores:
  assumes "reachable h" and "canUndo h"
  shows "redo (undo h) = h \<and> state (redo (undo h)) = state h
         \<and> index (redo (undo h)) = index h"
proof -
  from assms(1) have "index h < length (history h)"
    by (rule reachable_index_in_range)
  with assms(2) have "redo (undo h) = h"
    by (simp add: undo_def redo_def canUndo_def)
  then show ?thesis by simp
qed

theorem undo_redo_restores_witness:
  "reachable (setState (useHistory (1::nat)) (Val 2) False)
   \<and> canUndo (setState (useHistory (1::nat)) (Val 2) False)
   \<and> redo (undo (setState (useHistory (1::nat)) (Val 2) False))
       = setState (useHistory (1::nat)) (Val 2) False
   \<and> state (undo (setState (useHistory (1::nat)) (Val 2) False)) = 1"
proof -
  have r: "reachable (setState (useHistory (1::nat)) (Val 2) False)"
    by (rule r_set) (rule r_init)
  have c: "canUndo (setState (useHistory (1::nat)) (Val 2) False)"
    by (simp add: canUndo_def setState_def useHistory_def)
  have u: "state (undo (setState (useHistory (1::nat)) (Val 2) False)) = 1"
    by (simp add: state_def undo_def setState_def useHistory_def)
  from undo_redo_restores [OF r c] r c u show ?thesis by simp
qed

section \<open>Evaluation of the model on concrete inputs\<close>

lemmas eval_defs = run_def roomMouseDown_def handleRoomMouseDown_def handleMouseDown_def
  handleMouseMove_def handleMouseUp_def getMouseWorldPos_def initialApp_def initialRooms_def
  idle_def rooms_def state_def setState_def useHistory_def snapToGrid_def Math_round_def
  GRID_SIZE_def newRoom_def maxZ_def truthyId_def moveRoom_def mouseAt_def setRooms_def
  drawApp_def undo_def Let_def movedRooms_def ROOM_COLORS_def toString.simps

section \<open>Rounding and snapping\<close>

lemma Math_round_int: "v \<in> \<int> \<Longrightarrow> Math_round v = v"
  by (auto simp: Math_round_def elim!: Ints_cases)

lemma Math_round_in_Ints: "Math_round v \<in> \<int>"
  by (simp add: Math_round_def)

lemma snapToGrid_in_Ints: "snapToGrid v \<in> \<int>"
  by (simp add: snapToGrid_def GRID_SIZE_def Math_round_def)

lemma snapToGrid_multiple: "\<exists>k::int. snapToGrid v = GRID_SIZE * of_int k"
  by (auto simp: snapToGrid_def Math_round_def)

lemma Ints_min: "(a::real) \<in> \<int> \<Longrightarrow> b \<in> \<int> \<Longrightarrow> min a b \<in> \<int>"
  by (simp add: min_def)

lemma Ints_max: "(a::real) \<in> \<int> \<Longrightarrow> b \<in> \<int> \<Longrightarrow> max a b \<in> \<int>"
  by (simp add: max_def)

lemma GRID_SIZE_in_Ints: "GRID_SIZE \<in> \<int>"
  by (simp add: GRID_SIZE_def)

lemma Math_round_ge_grid: "GRID_SIZE \<le> v \<Longrightarrow> GRID_SIZE \<le> Math_round v"
proof -
  assume "GRID_SIZE \<le> v"
  then have "of_int 10 \<le> v + 1 / 2" by (simp add: GRID_SIZE_def)
  then have "10 \<le> \<lfloor>v + 1 / 2\<rfloor>" by (simp only: le_floor_iff)
  then show ?thesis by (simp add: Math_round_def GRID_SIZE_def)
qed

lemmas round_ints = Math_round_int Ints_min Ints_max GRID_SIZE_in_Ints Ints_add Ints_diff

lemma resizeRoom_size:
  "rid r = tid \<Longrightarrow> GRID_SIZE \<le> rwidth (resizeRoom tid h sp r)
     \<and> GRID_SIZE \<le> rheight (resizeRoom tid h sp r)"
  by (cases h) (auto simp: resizeRoom_def Let_def intro!: Math_round_ge_grid)

lemma resizeRoom_edges:
  assumes "rid r = tid" "rx r \<in> \<int>" "ry r \<in> \<int>" "rwidth r \<in> \<int>" "rheight r \<in> \<int>"
    "px sp \<in> \<int>" "py sp \<in> \<int>"
  shows
    "h = BottomRight \<Longrightarrow> rx (resizeRoom tid h sp r) = rx r \<and> ry (resizeRoom tid h sp r) = ry r"
    "h = TopLeft \<Longrightarrow> rx (resizeRoom tid h sp r) + rwidth (resizeRoom tid h sp r) = rx r + rwidth r
        \<and> ry (resizeRoom tid h sp r) + rheight (resizeRoom tid h sp r) = ry r + rheight r"
    "h = TopRight \<Longrightarrow> rx (resizeRoom tid h sp r) = rx r
        \<and> ry (resizeRoom tid h sp r) + rheight (resizeRoom tid h sp r) = ry r + rheight r"
    "h = BottomLeft \<Longrightarrow> rx (resizeRoom tid h sp r) + rwidth (resizeRoom tid h sp r) = rx r + rwidth r
        \<and> ry (resizeRoom tid h sp r) = ry r"
  using assms by (simp_all add: resizeRoom_def Let_def round_ints)

section \<open>Zooming\<close>



section \<open>Gestures that do not write the history\<close>

lemma handleMouseMove_no_write:
  assumes "atype (actionState st) = ANone \<or> atype (actionState st) = Drawing"
  shows "hist (handleMouseMove st e) = hist st
       \<and> actionState (handleMouseMove st e) = actionState st
       \<and> mode (handleMouseMove st e) = mode st"
  using assms by (auto simp: handleMouseMove_def Let_def)

lemma moves_no_write:
  assumes "atype (actionState st) = ANone \<or> atype (actionState st) = Drawing"
  shows "hist (foldl step st (map MoveEv ms)) = hist st
       \<and> actionState (foldl step st (map MoveEv ms)) = actionState st
       \<and> mode (foldl step st (map MoveEv ms)) = mode st"
  using assms
proof (induction ms arbitrary: st)
  case Nil
  show ?case by simp
next
  case (Cons m ms)
  from handleMouseMove_no_write [OF Cons.prems, of m]
  have h: "hist (handleMouseMove st m) = hist st"
    and a: "actionState (handleMouseMove st m) = actionState st"
    and mo: "mode (handleMouseMove st m) = mode st" by simp_all
  from Cons.prems a
  have "atype (actionState (handleMouseMove st m)) = ANone
      \<or> atype (actionState (handleMouseMove st m)) = Drawing" by simp
  from Cons.IH [OF this] h a mo show ?case by simp
qed


lemma handleMouseUp_drawing:
  assumes "atype (actionState st) = Drawing" "startPoint (actionState st) = Some sp"
  shows "hist (handleMouseUp st e) =
     (let endPoint = getMouseWorldPos st e;
          nr = newRoom (rooms st) sp
                 \<lparr>px = snapToGrid (px endPoint), py = snapToGrid (py endPoint)\<rparr>
                 (randomUUID e)
      in if GRID_SIZE \<le> rwidth nr \<and> GRID_SIZE \<le> rheight nr
         then setState (hist st) (Val (rooms st @ [nr])) False
         else hist st)"
  using assms by (simp add: handleMouseUp_def Let_def setState_def rooms_def state_def)

lemma handleMouseDown_draw:
  assumes "mode st = Draw" "button e \<noteq> 1"
  shows "hist (handleMouseDown st e) = hist st"
    "atype (actionState (handleMouseDown st e)) = Drawing"
    "startPoint (actionState (handleMouseDown st e)) =
       Some \<lparr>px = snapToGrid (px (getMouseWorldPos st e)),
             py = snapToGrid (py (getMouseWorldPos st e))\<rparr>"
  using assms by (simp_all add: handleMouseDown_def Let_def idle_def)



lemma abs_diff_snap_multiple:
  "\<exists>k::int. \<bar>snapToGrid a - snapToGrid b\<bar> = GRID_SIZE * of_int k"
proof -
  have "\<bar>snapToGrid a - snapToGrid b\<bar>
        = GRID_SIZE * of_int \<bar>\<lfloor>a / GRID_SIZE + 1 / 2\<rfloor> - \<lfloor>b / GRID_SIZE + 1 / 2\<rfloor>\<bar>"
    by (simp add: snapToGrid_def Math_round_def GRID_SIZE_def abs_if algebra_simps)
  then show ?thesis by blast
qed

lemma setState_append:
  assumes "index h < length (history h)"
  shows "history (setState h (Val v) False) = take (index h + 1) (history h) @ [v]"
    "index (setState h (Val v) False) = index h + 1"
    "state (setState h (Val v) False) = v"
    "state (undo (setState h (Val v) False)) = state h"
    "length (history (setState h (Val v) False)) = index h + 2"
proof -
  from assms have m: "min (length (history h)) (Suc (index h)) = Suc (index h)"
    by simp
  show "history (setState h (Val v) False) = take (index h + 1) (history h) @ [v]"
    by (simp add: setState_def)
  show "index (setState h (Val v) False) = index h + 1"
    by (simp add: setState_def m)
  show "state (setState h (Val v) False) = v"
    by (simp add: setState_def state_def m nth_append)
  show "state (undo (setState h (Val v) False)) = state h"
    by (simp add: setState_def state_def undo_def m nth_append)
  show "length (history (setState h (Val v) False)) = index h + 2"
    by (simp add: setState_def m)
qed

section \<open>Drawing a room\<close>

text \<open>
  C3. A draw gesture is a press on the canvas with the draw tool (any button but the
  middle one), any number of moves, and a release. With \<open>(sx, sy)\<close> the snapped start and
  \<open>(ex, ey)\<close> the snapped end, either \<open>|sx - ex|\<close> and \<open>|sy - ey|\<close> are both multiples of the
  grid unit and at least one grid unit, and one room of that width and height is added
  at the end of the room list by a single appended history entry; or the history cells
  are exactly what they were.
\<close>

theorem draw_gesture_room_or_nothing:
  fixes st :: app and d u :: pointer_event and ms :: "pointer_event list"
  assumes "mode st = Draw" and "button d \<noteq> 1"
    and "index (hist st) < length (history (hist st))"
  defines "s1 \<equiv> run st (CanvasDown d # map MoveEv ms)"
  defines "sx \<equiv> snapToGrid (px (getMouseWorldPos st d))"
    and "sy \<equiv> snapToGrid (py (getMouseWorldPos st d))"
  defines "ex \<equiv> snapToGrid (px (getMouseWorldPos s1 u))"
    and "ey \<equiv> snapToGrid (py (getMouseWorldPos s1 u))"
  defines "st' \<equiv> run st (CanvasDown d # map MoveEv ms @ [UpEv u])"
  shows "(GRID_SIZE \<le> \<bar>sx - ex\<bar> \<and> GRID_SIZE \<le> \<bar>sy - ey\<bar>
          \<and> (\<exists>k::int. \<bar>sx - ex\<bar> = GRID_SIZE * of_int k)
          \<and> (\<exists>k::int. \<bar>sy - ey\<bar> = GRID_SIZE * of_int k)
          \<and> (\<exists>nr. rwidth nr = \<bar>sx - ex\<bar> \<and> rheight nr = \<bar>sy - ey\<bar>
                \<and> rooms st' = rooms st @ [nr]
                \<and> history (hist st') =
                    take (index (hist st) + 1) (history (hist st)) @ [rooms st @ [nr]]
                \<and> index (hist st') = index (hist st) + 1))
       \<or> (hist st' = hist st \<and> rooms st' = rooms st)"
proof -
  let ?s0 = "handleMouseDown st d"
  have s1: "s1 = foldl step ?s0 (map MoveEv ms)"
    by (simp add: s1_def run_def)
  have st': "st' = handleMouseUp s1 u"
    by (simp add: st'_def s1_def run_def)
  note d = handleMouseDown_draw [OF assms(1,2)]
  from d(2) have "atype (actionState ?s0) = ANone \<or> atype (actionState ?s0) = Drawing"
    by simp
  from moves_no_write [OF this, of ms] s1
  have h1: "hist s1 = hist st" and a1: "actionState s1 = actionState ?s0"
    by (simp_all add: d(1))
  have r1: "rooms s1 = rooms st" by (simp add: rooms_def h1)
  let ?nr = "newRoom (rooms st) \<lparr>px = sx, py = sy\<rparr> \<lparr>px = ex, py = ey\<rparr> (randomUUID u)"
  have up: "hist st' = (if GRID_SIZE \<le> rwidth ?nr \<and> GRID_SIZE \<le> rheight ?nr
                        then setState (hist st) (Val (rooms st @ [?nr])) False
                        else hist st)"
    using handleMouseUp_drawing [of s1 "\<lparr>px = sx, py = sy\<rparr>" u]
    by (simp add: st' a1 d h1 r1 sx_def sy_def ex_def ey_def Let_def)
  have w: "rwidth ?nr = \<bar>sx - ex\<bar>" and h: "rheight ?nr = \<bar>sy - ey\<bar>"
    by (simp_all add: newRoom_def)
  show ?thesis
  proof (cases "GRID_SIZE \<le> rwidth ?nr \<and> GRID_SIZE \<le> rheight ?nr")
    case True
    with up have hs: "hist st' = setState (hist st) (Val (rooms st @ [?nr])) False"
      by simp
    note ap = setState_append [OF assms(3), of "rooms st @ [?nr]"]
    have "rooms st' = rooms st @ [?nr]"
      by (simp add: rooms_def [of st'] hs ap(3))
    moreover have "history (hist st') =
        take (index (hist st) + 1) (history (hist st)) @ [rooms st @ [?nr]]"
      by (simp only: hs ap(1))
    moreover have "index (hist st') = index (hist st) + 1"
      by (simp only: hs ap(2))
    ultimately have "\<exists>nr. rwidth nr = \<bar>sx - ex\<bar> \<and> rheight nr = \<bar>sy - ey\<bar>
                \<and> rooms st' = rooms st @ [nr]
                \<and> history (hist st') =
                    take (index (hist st) + 1) (history (hist st)) @ [rooms st @ [nr]]
                \<and> index (hist st') = index (hist st) + 1"
      using w h by (intro exI [of _ ?nr]) simp
    moreover from True w h have "GRID_SIZE \<le> \<bar>sx - ex\<bar>" "GRID_SIZE \<le> \<bar>sy - ey\<bar>"
      by simp_all
    moreover have "\<exists>k::int. \<bar>sx - ex\<bar> = GRID_SIZE * of_int k"
      unfolding sx_def ex_def by (rule abs_diff_snap_multiple)
    moreover have "\<exists>k::int. \<bar>sy - ey\<bar> = GRID_SIZE * of_int k"
      unfolding sy_def ey_def by (rule abs_diff_snap_multiple)
    ultimately show ?thesis by blast
  next
    case False
    with up have "hist st' = hist st" by simp
    then show ?thesis by (simp add: rooms_def)
  qed
qed

theorem draw_gesture_room_or_nothing_witness:
  "mode drawApp = Draw \<and> button (mouseAt 10 10) \<noteq> 1
   \<and> index (hist drawApp) < length (history (hist drawApp))
   \<and> rooms (run drawApp
        (CanvasDown (mouseAt 10 10) # map MoveEv [mouseAt 60 60] @ [UpEv (mouseAt 110 110)]))
       = initialRooms @
          [\<lparr>rid = ''room-3'', rx = 10, ry = 10, rwidth = 100, rheight = 100,
            rname = ''Room 3'', rcolor = ROOM_COLORS ! 2, zIndex = 2, features = [],
            locked = False\<rparr>]"
proof -
  have a: "mode drawApp = Draw" and b: "button (mouseAt 10 10) \<noteq> 1"
    and c: "index (hist drawApp) < length (history (hist drawApp))"
    by (simp_all add: drawApp_def initialApp_def mouseAt_def useHistory_def)
  from draw_gesture_room_or_nothing [OF a b c, of "[mouseAt 60 60]" "mouseAt 110 110"] a b c
  show ?thesis by (simp add: eval_defs)
qed

text \<open>
  C4, as the specification states it: from the two initial rooms, drawing from world
  \<open>(10, 10)\<close> to world \<open>(45, 45)\<close> would add no room and leave the history length as it
  was. It does not: \<open>Math.round(4.5)\<close> is \<open>5\<close>, so \<open>45\<close> snaps to \<open>50\<close>.
\<close>

theorem small_draw_adds_room:
  "rooms (run drawApp [CanvasDown (mouseAt 10 10), UpEv (mouseAt 45 45)]) \<noteq> initialRooms
   \<and> length (history (hist (run drawApp [CanvasDown (mouseAt 10 10), UpEv (mouseAt 45 45)])))
       \<noteq> length (history (hist drawApp))"
  by (simp add: eval_defs)

text \<open>
  C4, amended: from the two initial rooms, drawing from world \<open>(10, 10)\<close> to world
  \<open>(45, 45)\<close> snaps the end to \<open>(50, 50)\<close> and adds one room at \<open>(10, 10)\<close> of width and
  height \<open>40\<close> with \<open>zIndex\<close> 2, the history growing by one entry; drawing from \<open>(10, 10)\<close> to
  \<open>(14, 14)\<close>, whose end snaps back to the start, adds no room and writes no history.
\<close>

theorem small_draw_snaps_to_forty:
  "rooms (run drawApp [CanvasDown (mouseAt 10 10), UpEv (mouseAt 45 45)]) =
     initialRooms @
       [\<lparr>rid = ''room-3'', rx = 10, ry = 10, rwidth = 40, rheight = 40,
         rname = ''Room 3'', rcolor = ROOM_COLORS ! 2, zIndex = 2, features = [],
         locked = False\<rparr>]
   \<and> length (history (hist (run drawApp [CanvasDown (mouseAt 10 10), UpEv (mouseAt 45 45)])))
       = length (history (hist drawApp)) + 1
   \<and> hist (run drawApp [CanvasDown (mouseAt 10 10), UpEv (mouseAt 14 14)]) = hist drawApp"
  by (simp add: eval_defs)

section \<open>Dragging a room\<close>

text \<open>
  In general: a press on an unlocked room with a non-empty identifier, one or more moves
  and a release leave the history with one entry more than the index had before, the
  last two entries being the same final room list; an undo shows that final list.
\<close>

lemma dragging_move:
  assumes "dragging st tid s" and "tid \<noteq> []"
  shows "dragging st tid (handleMouseMove s e)
       \<and> isDragging (actionState (handleMouseMove s e))"
  using assms
  by (auto simp: dragging_def handleMouseMove_def Let_def truthyId_def setRooms_def
      setState_def)

lemma dragging_moves:
  assumes "dragging st tid s" and "tid \<noteq> []"
    and "isDragging (actionState s)"
  shows "dragging st tid (foldl step s (map MoveEv ms))
       \<and> isDragging (actionState (foldl step s (map MoveEv ms)))"
  using assms
proof (induction ms arbitrary: s)
  case Nil
  then show ?case by simp
next
  case (Cons m ms)
  from dragging_move [OF Cons.prems(1,2), of m] Cons.IH [OF _ Cons.prems(2)]
  show ?case by simp
qed

lemma dragging_up:
  assumes "dragging st tid s" and "isDragging (actionState s)"
    and "index (hist st) < length (history (hist st))"
  shows "history (hist (handleMouseUp s u))
           = take (index (hist st)) (history (hist st)) @ [rooms s, rooms s]
       \<and> index (hist (handleMouseUp s u)) = index (hist st) + 1"
proof -
  from assms(1) have a: "atype (actionState s) = Moving"
    and i: "index (hist s) = index (hist st)"
    and l: "length (history (hist s)) = length (history (hist st))"
    and t: "take (index (hist st)) (history (hist s)) = take (index (hist st)) (history (hist st))"
    by (simp_all add: dragging_def)
  from assms(3) i l have ok: "index (hist s) < length (history (hist s))" by simp
  have h: "hist (handleMouseUp s u) = setState (hist s) (Val (rooms s)) False"
    using a assms(2) by (simp add: handleMouseUp_def Let_def)
  from ok have "take (index (hist s) + 1) (history (hist s))
      = take (index (hist s)) (history (hist s)) @ [rooms s]"
    by (simp add: take_Suc_conv_app_nth rooms_def state_def)
  with setState_append(1,2) [OF ok, of "rooms s"] h i t show ?thesis by simp
qed

lemma drag_leaves_final_list_twice:
  assumes "\<not> locked r" and "mode st = Select" and "button d = 0" and "rid r \<noteq> []"
    and "\<not> isPanning st" and "index (hist st) < length (history (hist st))"
  shows "\<exists>final.
           history (hist (run st (RoomDown d r # map MoveEv (m # ms) @ [UpEv u])))
             = take (index (hist st)) (history (hist st)) @ [final, final]
         \<and> index (hist (run st (RoomDown d r # map MoveEv (m # ms) @ [UpEv u])))
             = index (hist st) + 1
         \<and> rooms (clickUndo (run st (RoomDown d r # map MoveEv (m # ms) @ [UpEv u])))
             = final
         \<and> rooms (run st (RoomDown d r # map MoveEv (m # ms) @ [UpEv u])) = final"
proof -
  let ?s0 = "roomMouseDown st d r"
  let ?s1 = "handleMouseMove ?s0 m"
  define s2 where "s2 = foldl step ?s1 (map MoveEv ms)"
  define st' where "st' = run st (RoomDown d r # map MoveEv (m # ms) @ [UpEv u])"
  have run: "st' = handleMouseUp s2 u" by (simp add: st'_def s2_def run_def)
  have d0: "dragging st (rid r) ?s0"
    using assms(1-3,5)
    by (simp add: dragging_def roomMouseDown_def handleRoomMouseDown_def Let_def idle_def)
  from dragging_move [OF d0 assms(4), of m]
  have d1: "dragging st (rid r) ?s1" and g1: "isDragging (actionState ?s1)" by simp_all
  from dragging_moves [OF d1 assms(4) g1, of ms]
  have d2: "dragging st (rid r) s2" and g2: "isDragging (actionState s2)"
    by (simp_all add: s2_def)
  from dragging_up [OF d2 g2 assms(6), of u]
  have h: "history (hist st') = take (index (hist st)) (history (hist st)) @ [rooms s2, rooms s2]"
    and i: "index (hist st') = index (hist st) + 1"
    by (simp_all add: run)
  from assms(6) have len: "min (length (history (hist st))) (index (hist st)) = index (hist st)"
    by simp
  have r: "rooms st' = rooms s2"
    by (simp add: rooms_def [of st'] state_def h i nth_append len)
  have "hist (clickUndo st') = (hist st')\<lparr>index := index (hist st)\<rparr>"
    by (simp add: clickUndo_def undo_def i)
  then have "rooms (clickUndo st') = rooms s2"
    by (simp add: rooms_def [of "clickUndo st'"] state_def h nth_append len)
  with r h i show ?thesis unfolding st'_def by blast
qed

text \<open>
  C1, evaluated on the initial rooms: the first room is pressed at \<open>(60, 60)\<close>, moved once
  to \<open>(83, 77)\<close> and released. The move overwrites the snapshot that was current before the
  drag, and the release appends the same moved list again: the history is the moved list
  twice, and an undo shows the moved list, not the list from before the drag.
\<close>

theorem drag_then_undo_keeps_moved_rooms:
  "history (hist (run initialApp
      [RoomDown (mouseAt 60 60) (initialRooms ! 0), MoveEv (mouseAt 83 77),
       UpEv (mouseAt 83 77)])) = [movedRooms, movedRooms]
   \<and> index (hist (run initialApp
      [RoomDown (mouseAt 60 60) (initialRooms ! 0), MoveEv (mouseAt 83 77),
       UpEv (mouseAt 83 77)])) = 1
   \<and> rooms (clickUndo (run initialApp
      [RoomDown (mouseAt 60 60) (initialRooms ! 0), MoveEv (mouseAt 83 77),
       UpEv (mouseAt 83 77)])) = movedRooms
   \<and> movedRooms \<noteq> initialRooms"
  by (simp add: eval_defs clickUndo_def)

section \<open>Resizing a room\<close>

lemma rooms_handleMouseMove_resizing:
  assumes "\<not> isPanning st" and "atype (actionState st) = Resizing"
    and "targetId (actionState st) = Some tid" and "tid \<noteq> []"
    and "handle (actionState st) = Some h"
    and "index (hist st) < length (history (hist st))"
  shows "rooms (handleMouseMove st e) =
           map (resizeRoom tid h
                  \<lparr>px = snapToGrid (px (getMouseWorldPos st e)),
                   py = snapToGrid (py (getMouseWorldPos st e))\<rparr>) (rooms st)"
  using assms
  by (simp add: handleMouseMove_def Let_def truthyId_def setRooms_def setState_def
      rooms_def state_def)

text \<open>
  C5. In a resizing gesture (not panning, a non-empty target id, a handle), one pointer
  move gives every room with the target id, if its coordinates are integers, a width
  and a height of at least one grid unit, and leaves the edges opposite the dragged
  handle where they were.
\<close>

theorem resize_step_keeps_opposite_edge:
  assumes "\<not> isPanning st" and "atype (actionState st) = Resizing"
    and "targetId (actionState st) = Some tid" and "tid \<noteq> []"
    and "handle (actionState st) = Some h"
    and "index (hist st) < length (history (hist st))"
    and "i < length (rooms st)" and "rid (rooms st ! i) = tid"
    and "rx (rooms st ! i) \<in> \<int>" and "ry (rooms st ! i) \<in> \<int>"
    and "rwidth (rooms st ! i) \<in> \<int>" and "rheight (rooms st ! i) \<in> \<int>"
  shows "GRID_SIZE \<le> rwidth (rooms (handleMouseMove st e) ! i)
       \<and> GRID_SIZE \<le> rheight (rooms (handleMouseMove st e) ! i)
       \<and> (h = BottomRight \<longrightarrow>
            rx (rooms (handleMouseMove st e) ! i) = rx (rooms st ! i)
          \<and> ry (rooms (handleMouseMove st e) ! i) = ry (rooms st ! i))
       \<and> (h = TopLeft \<longrightarrow>
            rx (rooms (handleMouseMove st e) ! i) + rwidth (rooms (handleMouseMove st e) ! i)
              = rx (rooms st ! i) + rwidth (rooms st ! i)
          \<and> ry (rooms (handleMouseMove st e) ! i) + rheight (rooms (handleMouseMove st e) ! i)
              = ry (rooms st ! i) + rheight (rooms st ! i))
       \<and> (h = TopRight \<longrightarrow>
            rx (rooms (handleMouseMove st e) ! i) = rx (rooms st ! i)
          \<and> ry (rooms (handleMouseMove st e) ! i) + rheight (rooms (handleMouseMove st e) ! i)
              = ry (rooms st ! i) + rheight (rooms st ! i))
       \<and> (h = BottomLeft \<longrightarrow>
            rx (rooms (handleMouseMove st e) ! i) + rwidth (rooms (handleMouseMove st e) ! i)
              = rx (rooms st ! i) + rwidth (rooms st ! i)
          \<and> ry (rooms (handleMouseMove st e) ! i) = ry (rooms st ! i))"
proof -
  let ?sp = "\<lparr>px = snapToGrid (px (getMouseWorldPos st e)),
              py = snapToGrid (py (getMouseWorldPos st e))\<rparr>"
  let ?r = "rooms st ! i"
  have eq: "rooms (handleMouseMove st e) ! i = resizeRoom tid h ?sp ?r"
    using rooms_handleMouseMove_resizing [OF assms(1-6), of e] assms(7) by simp
  have sp: "px ?sp \<in> \<int>" "py ?sp \<in> \<int>"
    by (simp_all add: snapToGrid_in_Ints)
  note ed = resizeRoom_edges [OF assms(8-12) sp, of h]
  from resizeRoom_size [OF assms(8), of h ?sp] ed show ?thesis
    unfolding eq by blast
qed

theorem resize_step_keeps_opposite_edge_witness:
  "rooms (handleMouseMove resizingApp (mouseAt 203 (- 40))) ! 0
     = (initialRooms ! 0)\<lparr>rwidth := 150, rheight := 10\<rparr>
   \<and> GRID_SIZE \<le> rheight (rooms (handleMouseMove resizingApp (mouseAt 203 (- 40))) ! 0)
   \<and> rx (rooms (handleMouseMove resizingApp (mouseAt 203 (- 40))) ! 0) = 50"
proof -
  have p: "\<not> isPanning resizingApp" "atype (actionState resizingApp) = Resizing"
    "targetId (actionState resizingApp) = Some ''living-room-1''"
    "''living-room-1'' \<noteq> []"
    "handle (actionState resizingApp) = Some BottomRight"
    "index (hist resizingApp) < length (history (hist resizingApp))"
    "0 < length (rooms resizingApp)" "rid (rooms resizingApp ! 0) = ''living-room-1''"
    "rx (rooms resizingApp ! 0) \<in> \<int>" "ry (rooms resizingApp ! 0) \<in> \<int>"
    "rwidth (rooms resizingApp ! 0) \<in> \<int>" "rheight (rooms resizingApp ! 0) \<in> \<int>"
    by (simp_all add: resizingApp_def handleResizeStart_def eval_defs)
  have v: "rooms (handleMouseMove resizingApp (mouseAt 203 (- 40))) ! 0
     = (initialRooms ! 0)\<lparr>rwidth := 150, rheight := 10\<rparr>"
    by (simp add: resizingApp_def handleResizeStart_def resizeRoom_def eval_defs)
  from resize_step_keeps_opposite_edge [OF p, of "mouseAt 203 (- 40)"] v show ?thesis
    by (simp add: initialRooms_def)
qed

section \<open>Locked rooms\<close>







section \<open>Loading a plan file\<close>


lemma js_in_True:
  "js_in k r = Some True \<Longrightarrow> \<exists>kvs. r = JObj kvs \<and> map_of kvs k \<noteq> None"
  by (cases r) (simp_all add: js_in_def)

lemma all_in_True:
  "all_in ks r = Some True \<Longrightarrow> k \<in> set ks \<Longrightarrow> \<exists>kvs. r = JObj kvs \<and> map_of kvs k \<noteq> None"
proof (induction ks)
  case Nil
  then show ?case by simp
next
  case (Cons a ks)
  from Cons.prems(1) have a: "js_in a r = Some True" and rest: "all_in ks r = Some True"
    by (auto split: option.splits bool.splits)
  from Cons.prems(2) have "k = a \<or> k \<in> set ks" by auto
  then show ?case
  proof
    assume "k = a"
    with js_in_True [OF a] show ?thesis by simp
  next
    assume "k \<in> set ks"
    with Cons.IH rest show ?thesis by simp
  qed
qed

lemma every_room_True:
  "every_room rs = Some True \<Longrightarrow> r \<in> set rs \<Longrightarrow> all_in requiredFields r = Some True"
  by (induction rs) (auto split: option.splits bool.splits)

lemma every_room_rejects:
  assumes "r \<in> set rs" and "k \<in> set requiredFields"
    and "\<forall>kvs. r = JObj kvs \<longrightarrow> map_of kvs k = None"
  shows "every_room rs \<noteq> Some True"
proof
  assume "every_room rs = Some True"
  from every_room_True [OF this assms(1)] have "all_in requiredFields r = Some True" .
  from all_in_True [OF this assms(2)] assms(3) show False by auto
qed

text \<open>
  C7. When the reader's result is not a string or not parsable, when the parsed value
  is not an array, or when some element of the array is not an object that has every
  one of the keys \<open>id\<close>, \<open>name\<close>, \<open>x\<close>, \<open>y\<close>, \<open>width\<close>, \<open>height\<close>, \<open>color\<close>, \<open>zIndex\<close>, the load
  shows one alert and changes no other state cell: the room list and the history are
  what they were.
\<close>

theorem malformed_file_rejected:
  assumes "res = NotString \<or> res = Unparsable
         \<or> (\<exists>j. res = Parsed j \<and> (\<forall>rs. j \<noteq> JArr rs))
         \<or> (\<exists>rs. res = Parsed (JArr rs)
               \<and> (\<exists>r\<in>set rs. \<exists>k\<in>set requiredFields.
                     \<forall>kvs. r = JObj kvs \<longrightarrow> map_of kvs k = None))"
  shows "onload st res = Some (st\<lparr>alerts := alerts st @ [ALERT_MESSAGE]\<rparr>)"
  using assms
proof (elim disjE exE conjE bexE)
  assume "res = NotString"
  then show ?thesis by (simp add: onload_def catchAlert_def)
next
  assume "res = Unparsable"
  then show ?thesis by (simp add: onload_def catchAlert_def)
next
  fix j assume "res = Parsed j" and "\<forall>rs. j \<noteq> JArr rs"
  then show ?thesis by (cases j) (simp_all add: onload_def catchAlert_def)
next
  fix rs r k
  assume res: "res = Parsed (JArr rs)" and r: "r \<in> set rs" and k: "k \<in> set requiredFields"
    and lack: "\<forall>kvs. r = JObj kvs \<longrightarrow> map_of kvs k = None"
  from every_room_rejects [OF r k lack] have "every_room rs \<noteq> Some True" .
  then show ?thesis
    by (auto simp: res onload_def catchAlert_def split: option.splits bool.splits)
qed

theorem malformed_file_rejected_witness:
  "onload initialApp (Parsed planWithoutZIndex)
     = Some (initialApp\<lparr>alerts := [ALERT_MESSAGE]\<rparr>)
   \<and> map_option hist (onload initialApp (Parsed planWithoutZIndex)) = Some (hist initialApp)
   \<and> onload initialApp (Parsed (JNum 3)) = Some (initialApp\<lparr>alerts := [ALERT_MESSAGE]\<rparr>)"
proof -
  have a: "Parsed planWithoutZIndex = NotString \<or> Parsed planWithoutZIndex = Unparsable
         \<or> (\<exists>j. Parsed planWithoutZIndex = Parsed j \<and> (\<forall>rs. j \<noteq> JArr rs))
         \<or> (\<exists>rs. Parsed planWithoutZIndex = Parsed (JArr rs)
               \<and> (\<exists>r\<in>set rs. \<exists>k\<in>set requiredFields.
                     \<forall>kvs. r = JObj kvs \<longrightarrow> map_of kvs k = None))"
    by (simp add: planWithoutZIndex_def requiredFields_def)
  have b: "Parsed (JNum 3) = NotString \<or> Parsed (JNum 3) = Unparsable
         \<or> (\<exists>j. Parsed (JNum 3) = Parsed j \<and> (\<forall>rs. j \<noteq> JArr rs))
         \<or> (\<exists>rs. Parsed (JNum 3) = Parsed (JArr rs)
               \<and> (\<exists>r\<in>set rs. \<exists>k\<in>set requiredFields.
                     \<forall>kvs. r = JObj kvs \<longrightarrow> map_of kvs k = None))"
    by simp
  from malformed_file_rejected [OF a, of initialApp] malformed_file_rejected [OF b, of initialApp]
  show ?thesis by (simp add: initialApp_def)
qed













end
